theory Spec2Isabelle
  imports Complex_Main
begin

section \<open>Conventions\<close>

text \<open>
  The program is \<^verbatim>\<open>src/neuron_init.py\<close>. Python floats are values of type \<^typ>\<open>real\<close>;
  arithmetic on them is exact, except in the bisection loop with binary64 rounding, where
  every operation is rounded. Python ints are \<^typ>\<open>int\<close>, lists are HOL lists. An exception
  raised by the Python code or by the solver is the \<open>Inl\<close> branch of a sum type.
\<close>

datatype error = IndexError | TypeError | ValueError | RuntimeError

subsection \<open>Python list indexing\<close>

text \<open>
  \<^verbatim>\<open>xs[i]\<close> for an int \<open>i\<close>: positions \<open>0\<close> to \<open>len - 1\<close> read forwards, \<open>-1\<close> down to
  \<open>- len\<close> read backwards from the last element, anything else raises \<^verbatim>\<open>IndexError\<close>.
\<close>

definition py_index :: "'a list \<Rightarrow> int \<Rightarrow> error + 'a" where
  "py_index xs i =
     (if 0 \<le> i \<and> i < int (length xs) then Inr (xs ! nat i)
      else if i < 0 \<and> - int (length xs) \<le> i then Inr (xs ! nat (int (length xs) + i))
      else Inl IndexError)"

definition bind :: "error + 'a \<Rightarrow> ('a \<Rightarrow> error + 'b) \<Rightarrow> error + 'b" where
  "bind r f = (case r of Inl e \<Rightarrow> Inl e | Inr x \<Rightarrow> f x)"

subsection \<open>Module constants (lines 23--40)\<close>

definition DT :: real where "DT = 0.025"
definition DEFAULT_RA :: real where "DEFAULT_RA = 70.0"
definition CM_NODE :: real where "CM_NODE = 1.0"
definition CM_INTERNODE :: real where "CM_INTERNODE = 0.02"
definition E_LEAK :: real where "E_LEAK = - 80.0"
definition G_NA_BAR :: real where "G_NA_BAR = 0.18"
definition G_K_BAR :: real where "G_K_BAR = 0.036"
definition G_LEAK_NODE :: real where "G_LEAK_NODE = 0.0003"
definition G_PAS_INTERN :: real where "G_PAS_INTERN = 1 / 100000"

section \<open>Geometry rules (lines 43--55)\<close>

text \<open>
  \<^verbatim>\<open>max(a, b)\<close> on two floats is \<^const>\<open>max\<close>. \<^verbatim>\<open>diam_um**0.5\<close> is the square root
  for a non-negative float; for a negative one Python returns a complex number, and the
  comparison inside \<^verbatim>\<open>max\<close> then raises \<^verbatim>\<open>TypeError\<close>.
\<close>

definition internode_length_from_diam :: "real \<Rightarrow> real" where
  "internode_length_from_diam diam_um = max 50.0 (100.0 * diam_um)"

definition node_length_um :: real where
  "node_length_um = 1.0"

definition paranode_length_um :: "real \<Rightarrow> error + real" where
  "paranode_length_um diam_um =
     (if diam_um < 0 then Inl TypeError else Inr (max 1.0 (3.0 * sqrt diam_um)))"

definition juxta_length_um :: "real \<Rightarrow> error + real" where
  "juxta_length_um diam_um =
     (if diam_um < 0 then Inl TypeError else Inr (max 5.0 (10.0 * sqrt diam_um)))"

section \<open>The solver's state\<close>

text \<open>
  The NEURON interpreter \<^verbatim>\<open>h\<close> is the external solver. Its state, as far as this program
  writes it, is a record: the sections created so far (a section's handle is its position
  in this list, so two sections of the same name stay apart), the connections made, the
  current clamps and recorders attached, the stop time and step, the standard run's
  \<^verbatim>\<open>v_init\<close>, and the uniform potential \<open>vm\<close> the last initialisation left. A section is
  the record of the attributes the program assigns; \<^verbatim>\<open>f'node_{i}'\<close> and the other names
  are kept as the pair of the role and the index. The solver is taken to accept every
  assignment made here.

  A current clamp has the parameters \<^verbatim>\<open>del\<close>, \<^verbatim>\<open>dur\<close> and \<^verbatim>\<open>amp\<close> and the variable \<^verbatim>\<open>i\<close>;
  a new clamp has \<^verbatim>\<open>amp = 0\<close>. The fields \<open>play_t\<close> and \<open>play_i\<close> are the series played into
  the variable \<^verbatim>\<open>i\<close> (not into \<^verbatim>\<open>amp\<close>).
\<close>

datatype role = Node | Paranode | Juxta | Intern

datatype mechanism =
    HH real real real real  \<comment> \<open>\<^verbatim>\<open>hh\<close>: gnabar, gkbar, gl, el\<close>
  | Pas real real           \<comment> \<open>\<^verbatim>\<open>pas\<close>: g, e\<close>

record sec =
  name :: "role \<times> nat"
  L :: real
  diam :: real
  Ra :: real
  nseg :: int
  cm :: real
  mechs :: "mechanism list"

record connection =
  child :: nat
  parent :: nat
  parent_x :: real

record iclamp =
  ic_section :: nat
  ic_x :: real
  delay :: real
  dur :: real
  amp :: real
  play_t :: "real list"
  play_i :: "real list"
  play_continuous :: bool

record neuron =
  sections :: "sec list"
  connections :: "connection list"
  iclamps :: "iclamp list"
  recorders :: "(nat \<times> real) list"
  tstop :: real
  dt :: real
  v_init :: real
  vm :: real

text \<open>
  The integration itself (\<^verbatim>\<open>continuerun(tstop)\<close> from an initialised state) is a parameter:
  from the solver's state it gives either an error raised by the solver
  (\<^verbatim>\<open>RuntimeError\<close>) or the content of every recording vector after the run, by the
  recorder's position in \<open>recorders\<close>.
\<close>

type_synonym solver = "neuron \<Rightarrow> error + (nat \<Rightarrow> real list)"

text \<open>\<^verbatim>\<open>h.finitialize(v)\<close> sets the potential of every section to \<open>v\<close>.\<close>

definition finitialize :: "real \<Rightarrow> neuron \<Rightarrow> neuron" where
  "finitialize v0 nr = nr\<lparr>vm := v0\<rparr>"

text \<open>
  The clamp assigns its variable \<^verbatim>\<open>i\<close> from \<^verbatim>\<open>amp\<close> in every step (\<^verbatim>\<open>i = amp\<close> between
  \<^verbatim>\<open>del\<close> and \<^verbatim>\<open>del + dur\<close>, \<^verbatim>\<open>i = 0\<close> otherwise), so a value played into \<^verbatim>\<open>i\<close> is
  overwritten before the current is injected: of a series played into \<^verbatim>\<open>i\<close> only the
  time vector and the number of values reach the integration.
\<close>

definition overwritten :: "iclamp \<Rightarrow> iclamp" where
  "overwritten c = c\<lparr>play_i := map (\<lambda>y. 0) (play_i c)\<rparr>"

text \<open>
  \<^verbatim>\<open>h.run()\<close> is the standard run of \<^verbatim>\<open>stdrun.hoc\<close>, loaded in line 21: it initialises
  again, with \<^verbatim>\<open>finitialize(v_init)\<close>, and then integrates to \<^verbatim>\<open>tstop\<close>. (It also sets the
  step from \<^verbatim>\<open>steps_per_ms = 40\<close>, which is the 0.025 the program has set.)
\<close>

definition h_run :: "solver \<Rightarrow> neuron \<Rightarrow> neuron \<times> (error + (nat \<Rightarrow> real list))" where
  "h_run solve nr =
     (let nr1 = finitialize (v_init nr) nr
      in (nr1, solve (nr1\<lparr>iclamps := map overwritten (iclamps nr1)\<rparr>)))"

definition Section :: "sec \<Rightarrow> neuron \<Rightarrow> nat \<times> neuron" where
  "Section sec nr = (length (sections nr), nr\<lparr>sections := sections nr @ [sec]\<rparr>)"

text \<open>\<^verbatim>\<open>c.connect(p(x))\<close>: the 0 end of \<open>c\<close> is attached to position \<open>x\<close> of \<open>p\<close>.\<close>

definition connect :: "nat \<Rightarrow> nat \<Rightarrow> real \<Rightarrow> neuron \<Rightarrow> neuron" where
  "connect c p x nr =
     nr\<lparr>connections := connections nr @ [\<lparr>child = c, parent = p, parent_x = x\<rparr>]\<rparr>"

section \<open>Building the fiber (lines 60--148)\<close>

record fiber_lists =
  nodes :: "nat list"
  paranos :: "nat list"
  juxtas :: "nat list"
  interns :: "nat list"

record fiber = fiber_lists +
  mid_idx :: int

text \<open>
  Lines 75--90, 95--103, 107--115 and 119--127: the four kinds of section, each the record
  of the attributes assigned to it, in the order of the assignments. The four \<^verbatim>\<open>hh\<close>
  assignments inside \<^verbatim>\<open>try\<close> are taken to succeed, as they do for the standard mechanism.
\<close>

definition node_section :: "real \<Rightarrow> nat \<Rightarrow> sec" where
  "node_section diam_um i =
     \<lparr>name = (Node, i), L = node_length_um, diam = diam_um, Ra = DEFAULT_RA, nseg = 1,
      cm = CM_NODE, mechs = [HH G_NA_BAR G_K_BAR G_LEAK_NODE E_LEAK]\<rparr>"

definition paranode_section :: "real \<Rightarrow> nat \<Rightarrow> real \<Rightarrow> sec" where
  "paranode_section diam_um i len =
     \<lparr>name = (Paranode, i), L = len, diam = diam_um, Ra = DEFAULT_RA, nseg = 1,
      cm = CM_INTERNODE, mechs = [Pas G_PAS_INTERN E_LEAK]\<rparr>"

definition juxta_section :: "real \<Rightarrow> nat \<Rightarrow> real \<Rightarrow> sec" where
  "juxta_section diam_um i len =
     \<lparr>name = (Juxta, i), L = len, diam = diam_um, Ra = DEFAULT_RA, nseg = 1,
      cm = CM_INTERNODE, mechs = [Pas G_PAS_INTERN E_LEAK]\<rparr>"

definition intern_section :: "real \<Rightarrow> nat \<Rightarrow> real \<Rightarrow> sec" where
  "intern_section diam_um i len =
     \<lparr>name = (Intern, i), L = len, diam = diam_um, Ra = DEFAULT_RA, nseg = 1,
      cm = CM_INTERNODE, mechs = [Pas G_PAS_INTERN E_LEAK]\<rparr>"

text \<open>Lines 74--128: the body of the first loop, for the index \<open>i\<close>.\<close>

definition build_group ::
  "real \<Rightarrow> int \<Rightarrow> nat \<Rightarrow> neuron \<times> fiber_lists \<Rightarrow> error + neuron \<times> fiber_lists" where
  "build_group diam_um n_nodes i = (\<lambda>(nr, fl).
     let (nd, nr1) = Section (node_section diam_um i) nr;
         fl1 = fl\<lparr>nodes := nodes fl @ [nd]\<rparr>
     in if int i < n_nodes - 1 then
          bind (paranode_length_um diam_um) (\<lambda>pl.
            let (pn, nr2) = Section (paranode_section diam_um i pl) nr1;
                fl2 = fl1\<lparr>paranos := paranos fl1 @ [pn]\<rparr>
            in bind (juxta_length_um diam_um) (\<lambda>jl.
                 let (jx, nr3) = Section (juxta_section diam_um i jl) nr2;
                     fl3 = fl2\<lparr>juxtas := juxtas fl2 @ [jx]\<rparr>;
                     (intern, nr4) =
                       Section (intern_section diam_um i (internode_length_from_diam diam_um)) nr3;
                     fl4 = fl3\<lparr>interns := interns fl3 @ [intern]\<rparr>
                 in Inr (nr4, fl4)))
        else Inr (nr1, fl1))"

fun build_sections ::
  "real \<Rightarrow> int \<Rightarrow> nat list \<Rightarrow> neuron \<times> fiber_lists \<Rightarrow> error + neuron \<times> fiber_lists" where
  "build_sections diam_um n_nodes [] st = Inr st"
| "build_sections diam_um n_nodes (i # is) st =
     bind (build_group diam_um n_nodes i st) (build_sections diam_um n_nodes is)"

text \<open>Lines 136--139: the body of the second loop, for the index \<open>i\<close>.\<close>

definition connect_group :: "fiber_lists \<Rightarrow> nat \<Rightarrow> neuron \<Rightarrow> error + neuron" where
  "connect_group fl i nr =
     bind (py_index (paranos fl) (int i)) (\<lambda>pn.
     bind (py_index (nodes fl) (int i)) (\<lambda>nd.
     let nr1 = connect pn nd 1.0 nr in
     bind (py_index (juxtas fl) (int i)) (\<lambda>jx.
     bind (py_index (paranos fl) (int i)) (\<lambda>pn'.
     let nr2 = connect jx pn' 1.0 nr1 in
     bind (py_index (interns fl) (int i)) (\<lambda>intern.
     bind (py_index (juxtas fl) (int i)) (\<lambda>jx'.
     let nr3 = connect intern jx' 1.0 nr2 in
     bind (py_index (nodes fl) (int i + 1)) (\<lambda>nd'.
     bind (py_index (interns fl) (int i)) (\<lambda>intern'.
     Inr (connect nd' intern' 1.0 nr3)))))))))"

fun connect_sections :: "fiber_lists \<Rightarrow> nat list \<Rightarrow> neuron \<Rightarrow> error + neuron" where
  "connect_sections fl [] nr = Inr nr"
| "connect_sections fl (i # is) nr = bind (connect_group fl i nr) (connect_sections fl is)"

text \<open>
  \<^verbatim>\<open>range(n)\<close> is \<open>[0..<nat n]\<close>, empty for \<open>n \<le> 0\<close>. The function returns the fiber and
  leaves the sections and connections in the solver.
\<close>

definition make_MRG_fiber :: "real \<Rightarrow> int \<Rightarrow> neuron \<Rightarrow> error + fiber \<times> neuron" where
  "make_MRG_fiber diam_um n_nodes nr =
     bind (build_sections diam_um n_nodes [0..<nat n_nodes]
             (nr, \<lparr>nodes = [], paranos = [], juxtas = [], interns = []\<rparr>))
       (\<lambda>(nr1, fl).
          bind (connect_sections fl [0..<nat (int (length (nodes fl)) - 1)] nr1)
            (\<lambda>nr2. Inr (\<lparr>nodes = nodes fl, paranos = paranos fl, juxtas = juxtas fl,
                           interns = interns fl, mid_idx = int (length (nodes fl)) div 2\<rparr>,
                         nr2)))"

text \<open>
  The solver after line 21, with nothing in it: \<^verbatim>\<open>stdrun.hoc\<close> sets \<^verbatim>\<open>tstop = 5\<close>,
  \<^verbatim>\<open>dt = 0.025\<close> and \<^verbatim>\<open>v_init = -65\<close>, and the program never assigns \<^verbatim>\<open>v_init\<close>.
\<close>

definition empty_neuron :: neuron where
  "empty_neuron = \<lparr>sections = [], connections = [], iclamps = [], recorders = [],
                    tstop = 5, dt = 0.025, v_init = - 65, vm = - 65\<rparr>"

subsection \<open>The result in closed form\<close>

text \<open>
  What the two loops leave behind, written without recursion, for the proofs below. With
  \<open>b\<close> sections in the solver before the call, group \<open>i\<close> takes the handles \<open>b + 4 i\<close> to
  \<open>b + 4 i + 3\<close>; the last node stands alone.
\<close>

definition group_secs :: "real \<Rightarrow> int \<Rightarrow> nat \<Rightarrow> sec list" where
  "group_secs d n i = node_section d i #
     (if int i < n - 1
      then [paranode_section d i (max 1 (3 * sqrt d)),
            juxta_section d i (max 5 (10 * sqrt d)),
            intern_section d i (internode_length_from_diam d)]
      else [])"

definition built :: "real \<Rightarrow> int \<Rightarrow> neuron \<Rightarrow> nat \<Rightarrow> neuron \<times> fiber_lists" where
  "built d n nr k =
     (let b = length (sections nr); m = min k (nat (n - 1))
      in (nr\<lparr>sections := sections nr @ concat (map (group_secs d n) [0..<k])\<rparr>,
          \<lparr>nodes = map (\<lambda>i. b + 4 * i) [0..<k],
           paranos = map (\<lambda>i. b + 4 * i + 1) [0..<m],
           juxtas = map (\<lambda>i. b + 4 * i + 2) [0..<m],
           interns = map (\<lambda>i. b + 4 * i + 3) [0..<m]\<rparr>))"

definition built_lists :: "nat \<Rightarrow> nat \<Rightarrow> nat \<Rightarrow> fiber_lists" where
  "built_lists b N M =
     \<lparr>nodes = map (\<lambda>i. b + 4 * i) [0..<N],
      paranos = map (\<lambda>i. b + 4 * i + 1) [0..<M],
      juxtas = map (\<lambda>i. b + 4 * i + 2) [0..<M],
      interns = map (\<lambda>i. b + 4 * i + 3) [0..<M]\<rparr>"

definition conn_group :: "nat \<Rightarrow> nat \<Rightarrow> connection list" where
  "conn_group b i =
     [\<lparr>child = b + 4 * i + 1, parent = b + 4 * i, parent_x = 1\<rparr>,
      \<lparr>child = b + 4 * i + 2, parent = b + 4 * i + 1, parent_x = 1\<rparr>,
      \<lparr>child = b + 4 * i + 3, parent = b + 4 * i + 2, parent_x = 1\<rparr>,
      \<lparr>child = b + 4 * i + 4, parent = b + 4 * i + 3, parent_x = 1\<rparr>]"

definition built_fiber :: "nat \<Rightarrow> nat \<Rightarrow> fiber" where
  "built_fiber b N =
     \<lparr>nodes = map (\<lambda>i. b + 4 * i) [0..<N],
      paranos = map (\<lambda>i. b + 4 * i + 1) [0..<N - 1],
      juxtas = map (\<lambda>i. b + 4 * i + 2) [0..<N - 1],
      interns = map (\<lambda>i. b + 4 * i + 3) [0..<N - 1],
      mid_idx = int N div 2\<rparr>"

definition built_neuron :: "real \<Rightarrow> int \<Rightarrow> neuron \<Rightarrow> neuron" where
  "built_neuron d n nr =
     nr\<lparr>sections := sections nr @ concat (map (group_secs d n) [0..<nat n]),
        connections := connections nr
                         @ concat (map (conn_group (length (sections nr))) [0..<nat n - 1])\<rparr>"

text \<open>
  The chain in the specification's words: node \<open>i\<close>, paranode \<open>i\<close>, juxtaparanode \<open>i\<close>,
  internode \<open>i\<close>, node \<open>i + 1\<close>, each attached by its 0 end to the 1 end of the one before.
\<close>

definition chain_links :: "fiber \<Rightarrow> nat \<Rightarrow> connection list" where
  "chain_links f i =
     [\<lparr>child = paranos f ! i, parent = nodes f ! i, parent_x = 1\<rparr>,
      \<lparr>child = juxtas f ! i, parent = paranos f ! i, parent_x = 1\<rparr>,
      \<lparr>child = interns f ! i, parent = juxtas f ! i, parent_x = 1\<rparr>,
      \<lparr>child = nodes f ! Suc i, parent = interns f ! i, parent_x = 1\<rparr>]"

section \<open>Stimulation utilities (lines 153--179)\<close>

text \<open>
  Lines 160--166. The function creates the clamp at the middle of the section, sets its
  delay and duration, copies the two series into vectors and plays the current vector
  into the clamp's variable \<^verbatim>\<open>i\<close> (\<^verbatim>\<open>stim._ref_i\<close>) against the time vector (continuous
  mode). It never assigns \<^verbatim>\<open>amp\<close>, and it checks nothing about the two series. The handle
  returned is the clamp's position in \<open>iclamps\<close>.
\<close>

definition attach_vector_stim ::
  "nat \<Rightarrow> real list \<Rightarrow> real list \<Rightarrow> neuron \<Rightarrow> error + nat \<times> neuron" where
  "attach_vector_stim node_section' tvec_ms ivec_nA nr =
     (let stim = \<lparr>ic_section = node_section', ic_x = 0.5, delay = 0, dur = 10 ^ 9, amp = 0,
                  play_t = tvec_ms, play_i = ivec_nA, play_continuous = True\<rparr>
      in Inr (length (iclamps nr), nr\<lparr>iclamps := iclamps nr @ [stim]\<rparr>))"

text \<open>Lines 168--173: the voltage at the middle of the section is recorded.\<close>

definition record_section_v :: "nat \<Rightarrow> neuron \<Rightarrow> nat \<times> neuron" where
  "record_section_v section' nr =
     (length (recorders nr), nr\<lparr>recorders := recorders nr @ [(section', 0.5)]\<rparr>)"

text \<open>
  Lines 175--179, one assignment or call each: the stop time, the step, the
  initialisation at \<open>E_LEAK\<close>, the standard run. The result is the new state and what the
  run gave.
\<close>

definition run_sim ::
  "solver \<Rightarrow> real \<Rightarrow> neuron \<Rightarrow> neuron \<times> (error + (nat \<Rightarrow> real list))" where
  "run_sim solve tstop_ms nr =
     (let nr1 = nr\<lparr>tstop := tstop_ms\<rparr>;
          nr2 = nr1\<lparr>dt := DT\<rparr>;
          nr3 = finitialize E_LEAK nr2
      in h_run solve nr3)"

section \<open>Threshold search (lines 205--222)\<close>

text \<open>
  The trial closure \<^verbatim>\<open>test_scale\<close> is a parameter here: a function from the scale to
  either an exception or the fired flag. The loop keeps the bracket \<open>(lo, hi)\<close>; the
  counter is the number of iterations \<^verbatim>\<open>range(max_iters)\<close> still has to offer. The
  model returns the whole final bracket, of which the program returns \<open>hi\<close>.
\<close>

fun bisect_loop ::
  "(real \<Rightarrow> error + bool) \<Rightarrow> real \<Rightarrow> nat \<Rightarrow> real \<times> real \<Rightarrow> error + real \<times> real" where
  "bisect_loop test_scale tol 0 (lo, hi) = Inr (lo, hi)"
| "bisect_loop test_scale tol (Suc n) (lo, hi) =
     (let mid_s = 0.5 * (lo + hi) in
      case test_scale mid_s of
        Inl e \<Rightarrow> Inl e
      | Inr ev \<Rightarrow>
          (let lo' = (if ev then lo else mid_s);
               hi' = (if ev then mid_s else hi)
           in if hi' - lo' < tol then Inr (lo', hi')
              else bisect_loop test_scale tol n (lo', hi')))"


text \<open>
  Lines 205--222: the two bracket checks, then the loop. \<open>None\<close> is Python's
  \<^verbatim>\<open>None\<close> (the diagnostic printed before it is not modelled).
\<close>

definition find_threshold_search ::
  "(real \<Rightarrow> error + bool) \<Rightarrow> real \<Rightarrow> real \<Rightarrow> real \<Rightarrow> int \<Rightarrow> error + real option" where
  "find_threshold_search test_scale scale_lo scale_hi tol max_iters =
     (case test_scale scale_hi of
        Inl e \<Rightarrow> Inl e
      | Inr ev_hi \<Rightarrow>
          if \<not> ev_hi then Inr None
          else (case test_scale scale_lo of
                  Inl e \<Rightarrow> Inl e
                | Inr ev_lo \<Rightarrow>
                    if ev_lo then Inr (Some scale_lo)
                    else (case bisect_loop test_scale tol (nat max_iters) (scale_lo, scale_hi) of
                            Inl e \<Rightarrow> Inl e
                          | Inr (lo, hi) \<Rightarrow> Inr (Some hi))))"

subsection \<open>The iteration as the specification words it\<close>



text \<open>
  A trial that never raises and fires exactly from the scale \<open>\<theta>\<close> upwards: the test
  fixture of this development.
\<close>

definition fires_from :: "real \<Rightarrow> real \<Rightarrow> error + bool" where
  "fires_from \<theta> s = Inr (\<theta> \<le> s)"

subsection \<open>The loop with binary64 rounding\<close>

text \<open>
  The loop above computes with exact reals; every statement proved of it below is one
  that does not depend on rounding. Python's floats are binary64 numbers, and where
  rounding decides a property the loop is taken again with every operation rounded: to
  the nearest number with a 53-bit significand, ties to the even significand. The
  exponent range is not bounded here, so overflow to infinity and subnormal numbers are
  outside this model. Floats are still values of type \<^typ>\<open>real\<close>.
\<close>

definition round_half_even :: "real \<Rightarrow> int" where
  "round_half_even x =
     (let f = \<lfloor>x\<rfloor>; r = x - of_int f
      in if r < 1 / 2 then f
         else if 1 / 2 < r then f + 1
         else if even f then f else f + 1)"

definition round64 :: "real \<Rightarrow> real" where
  "round64 x =
     (if x = 0 then 0
      else (let e = \<lfloor>log 2 \<bar>x\<bar>\<rfloor> - 52
            in of_int (round_half_even (x / 2 powi e)) * 2 powi e))"









section \<open>The trial and the whole search (lines 184--222)\<close>

text \<open>
  Lines 197--203. The closure's free variables are parameters. The clamp and its vectors
  are local to the call and die with it, so the state the trial leaves behind is not
  passed on: every trial starts from the state \<open>nr\<close> the closure was made in. An error
  of the run is passed on. \<^verbatim>\<open>Vm.max()\<close> of an empty array raises \<^verbatim>\<open>ValueError\<close>.
\<close>

definition test_scale ::
  "solver \<Rightarrow> neuron \<Rightarrow> nat list \<Rightarrow> int \<Rightarrow> real list \<Rightarrow> real list \<Rightarrow> nat \<Rightarrow> real
     \<Rightarrow> error + bool" where
  "test_scale solve nr nodes' mid tvec_ms base_waveform_nA rec_v s =
     bind (py_index nodes' mid) (\<lambda>nd.
     bind (attach_vector_stim nd tvec_ms (map (\<lambda>x. x * s) base_waveform_nA) nr) (\<lambda>(stim, nr1).
     bind (py_index tvec_ms (- 1)) (\<lambda>t_last.
     let (nr2, res) = run_sim solve (t_last + 5.0) nr1
     in bind res (\<lambda>vecs.
          let Vm = vecs rec_v
          in if Vm = [] then Inl ValueError else Inr (Max (set Vm) > 0.0)))))"

text \<open>Lines 192--195, then the search of lines 205--222 with the closure.\<close>

definition find_threshold ::
  "solver \<Rightarrow> neuron \<Rightarrow> fiber \<Rightarrow> real list \<Rightarrow> real list \<Rightarrow> real \<Rightarrow> real \<Rightarrow> real \<Rightarrow> int
     \<Rightarrow> int option \<Rightarrow> error + real option" where
  "find_threshold solve nr fiber' tvec_ms base_waveform_nA scale_lo scale_hi tol max_iters
       record_node_index =
     (let nodes' = nodes fiber';
          mid = mid_idx fiber';
          rec_idx = (case record_node_index of
                       Some r \<Rightarrow> r
                     | None \<Rightarrow> int (length nodes') - 1)
      in bind (py_index nodes' rec_idx) (\<lambda>sec.
           let (rec_v, nr1) = record_section_v sec nr
           in find_threshold_search
                (test_scale solve nr1 nodes' mid tvec_ms base_waveform_nA rec_v)
                scale_lo scale_hi tol max_iters))"

subsection \<open>The state a trial's integration starts from\<close>

text \<open>
  For the proofs below: the closure's state with the trial's clamp added at the section
  \<open>nd\<close>, after the assignments of \<^verbatim>\<open>run_sim\<close> and the two initialisations, as the
  integration receives it.
\<close>

definition trial_run_state ::
  "neuron \<Rightarrow> nat \<Rightarrow> real list \<Rightarrow> real list \<Rightarrow> real \<Rightarrow> neuron" where
  "trial_run_state nr nd tvec_ms base t_last =
     nr\<lparr>tstop := t_last + 5, dt := 0.025, vm := v_init nr,
        iclamps := map overwritten (iclamps nr)
                     @ [\<lparr>ic_section = nd, ic_x = 0.5, delay = 0, dur = 10 ^ 9, amp = 0,
                         play_t = tvec_ms, play_i = map (\<lambda>y. 0) base,
                         play_continuous = True\<rparr>]\<rparr>"

section \<open>Verification: geometry rules\<close>

text \<open>
  Claim C7. For every diameter \<open>d > 0\<close>: the node length is 1; the internode length is
  \<open>max 50 (100 d)\<close>; the paranode length is \<open>max 1 (3 \<surd>d)\<close>; the juxtaparanode length
  is \<open>max 5 (10 \<surd>d)\<close>; each is strictly positive; the internode length is non-decreasing
  in \<open>d\<close> and at least 50; the paranode and juxtaparanode lengths are at least 1 and 5.
\<close>

theorem geometry_rules:
  assumes d: "0 < d"
  shows "node_length_um = 1 \<and> 0 < node_length_um
       \<and> internode_length_from_diam d = max 50 (100 * d)
       \<and> 0 < internode_length_from_diam d \<and> 50 \<le> internode_length_from_diam d
       \<and> (\<forall>d'. d \<le> d' \<longrightarrow> internode_length_from_diam d \<le> internode_length_from_diam d')
       \<and> (\<exists>p. paranode_length_um d = Inr p \<and> p = max 1 (3 * sqrt d) \<and> 0 < p \<and> 1 \<le> p)
       \<and> (\<exists>j. juxta_length_um d = Inr j \<and> j = max 5 (10 * sqrt d) \<and> 0 < j \<and> 5 \<le> j)"
  using d
  by (simp add: node_length_um_def internode_length_from_diam_def paranode_length_um_def
      juxta_length_um_def max_def)

theorem geometry_rules_witness:
  "(0::real) < 4 \<and> node_length_um = 1 \<and> internode_length_from_diam 4 = 400
   \<and> paranode_length_um 4 = Inr 6 \<and> juxta_length_um 4 = Inr 20
   \<and> 50 \<le> internode_length_from_diam 4"
  using geometry_rules [of 4] by simp

section \<open>Verification: building the fiber\<close>

subsection \<open>The loops in closed form\<close>

lemma bind_Inr [simp]: "bind (Inr x) f = f x"
  by (simp add: bind_def)

lemma bind_Inl [simp]: "bind (Inl e) f = Inl e"
  by (simp add: bind_def)

lemma build_sections_append:
  "build_sections d n (xs @ ys) st = bind (build_sections d n xs st) (build_sections d n ys)"
proof (induction xs arbitrary: st)
  case Nil
  then show ?case by simp
next
  case (Cons i xs)
  show ?case
    by (cases "build_group d n i st") (simp_all add: Cons.IH)
qed

lemma connect_sections_append:
  "connect_sections fl (xs @ ys) nr = bind (connect_sections fl xs nr) (connect_sections fl ys)"
proof (induction xs arbitrary: nr)
  case Nil
  then show ?case by simp
next
  case (Cons i xs)
  show ?case
    by (cases "connect_group fl i nr") (simp_all add: Cons.IH)
qed

lemma length_group_secs: "length (group_secs d n i) = (if int i < n - 1 then 4 else 1)"
  by (simp add: group_secs_def)

lemma length_groups:
  "int k \<le> n - 1 \<Longrightarrow> length (concat (map (group_secs d n) [0..<k])) = 4 * k"
  by (induction k) (simp_all add: length_group_secs)

lemma built_0: "built d n nr 0 = (nr, \<lparr>nodes = [], paranos = [], juxtas = [], interns = []\<rparr>)"
  by (simp add: built_def)

lemma build_group_step:
  assumes k: "k < nat n" and ok: "0 \<le> d \<or> n \<le> 1"
  shows "build_group d n k (built d n nr k) = Inr (built d n nr (Suc k))"
proof -
  have len: "length (concat (map (group_secs d n) [0..<k])) = 4 * k"
    using k by (intro length_groups) simp
  show ?thesis
  proof (cases "int k < n - 1")
    case True
    then have d: "0 \<le> d" using ok by auto
    have m: "min k (nat (n - 1)) = k" "min (Suc k) (nat (n - 1)) = Suc k"
      using True by simp_all
    show ?thesis
      using True d
      by (simp add: build_group_def built_def Let_def Section_def len m group_secs_def
          paranode_length_um_def juxta_length_um_def)
  next
    case False
    then have m: "min k (nat (n - 1)) = nat (n - 1)" "min (Suc k) (nat (n - 1)) = nat (n - 1)"
      using k by simp_all
    show ?thesis
      using False
      by (simp add: build_group_def built_def Let_def Section_def len m group_secs_def)
  qed
qed

lemma build_sections_built:
  assumes ok: "0 \<le> d \<or> n \<le> 1"
  shows "k \<le> nat n \<Longrightarrow> build_sections d n [0..<k] (built d n nr 0) = Inr (built d n nr k)"
proof (induction k)
  case 0
  then show ?case by simp
next
  case (Suc k)
  then have "build_sections d n [0..<k] (built d n nr 0) = Inr (built d n nr k)" by simp
  moreover have "build_group d n k (built d n nr k) = Inr (built d n nr (Suc k))"
    using Suc.prems ok by (intro build_group_step) simp_all
  ultimately show ?case
    by (simp add: build_sections_append)
qed

lemma py_index_map_upt:
  "i < m \<Longrightarrow> py_index (map f [0..<m]) (int i) = Inr (f i)"
  by (simp add: py_index_def Let_def)

lemma py_index_map_upt_Suc:
  "Suc i < m \<Longrightarrow> py_index (map f [0..<m]) (int i + 1) = Inr (f (Suc i))"
  using py_index_map_upt [of "Suc i" m f] by (simp add: add.commute)

lemma connect_group_step:
  assumes "i < M" and "Suc i < N"
  shows "connect_group (built_lists b N M) i nr
           = Inr (nr\<lparr>connections := connections nr @ conn_group b i\<rparr>)"
  using assms
  by (simp add: connect_group_def built_lists_def py_index_map_upt py_index_map_upt_Suc
      connect_def conn_group_def Let_def)

lemma connect_sections_built:
  "j \<le> M \<Longrightarrow> j < N \<Longrightarrow>
     connect_sections (built_lists b N M) [0..<j] nr
       = Inr (nr\<lparr>connections := connections nr @ concat (map (conn_group b) [0..<j])\<rparr>)"
proof (induction j)
  case 0
  then show ?case by simp
next
  case (Suc j)
  then have "connect_sections (built_lists b N M) [0..<j] nr
       = Inr (nr\<lparr>connections := connections nr @ concat (map (conn_group b) [0..<j])\<rparr>)"
    by simp
  moreover have "connect_group (built_lists b N M) j
        (nr\<lparr>connections := connections nr @ concat (map (conn_group b) [0..<j])\<rparr>)
       = Inr (nr\<lparr>connections := connections nr @ concat (map (conn_group b) [0..<j]) @ conn_group b j\<rparr>)"
    using Suc.prems by (simp add: connect_group_step)
  ultimately show ?case
    by (simp add: connect_sections_append)
qed

lemma make_MRG_fiber_built:
  assumes ok: "0 \<le> d \<or> n \<le> 1"
  shows "make_MRG_fiber d n nr = Inr (built_fiber (length (sections nr)) (nat n), built_neuron d n nr)"
proof -
  let ?b = "length (sections nr)"
  let ?N = "nat n"
  have m: "min ?N (nat (n - 1)) = ?N - 1" by arith
  have bs: "build_sections d n [0..<?N] (nr, \<lparr>nodes = [], paranos = [], juxtas = [], interns = []\<rparr>)
              = Inr (built d n nr ?N)"
    using build_sections_built [OF ok, of ?N nr] by (simp add: built_0)
  have bl: "built d n nr ?N
              = (nr\<lparr>sections := sections nr @ concat (map (group_secs d n) [0..<?N])\<rparr>,
                 built_lists ?b ?N (?N - 1))"
    by (simp only: built_def Let_def m built_lists_def)
  have cs: "connect_sections (built_lists ?b ?N (?N - 1)) [0..<?N - 1] nr1
              = Inr (nr1\<lparr>connections := connections nr1 @ concat (map (conn_group ?b) [0..<?N - 1])\<rparr>)"
    for nr1
  proof (cases "?N = 0")
    case True
    then show ?thesis by simp
  next
    case False
    then show ?thesis by (intro connect_sections_built) simp_all
  qed
  have g: "nat (int N - 1) = N - 1" for N :: nat
    by arith
  have "length (nodes (built_lists ?b ?N (?N - 1))) = ?N"
    by (simp add: built_lists_def)
  then have len: "nat (int (length (nodes (built_lists ?b ?N (?N - 1)))) - 1) = ?N - 1"
    by (simp only: g)
  show ?thesis
    unfolding make_MRG_fiber_def bs bl
    by (simp only: bind_Inr prod.case len cs)
      (simp add: built_lists_def built_fiber_def built_neuron_def)
qed

lemma make_MRG_fiber_TypeError:
  assumes "d < 0" and "2 \<le> n"
  shows "make_MRG_fiber d n nr = Inl TypeError"
proof -
  have "[0..<nat n] = 0 # [1..<nat n]"
    using assms(2) by (simp add: upt_rec)
  moreover have "build_group d n 0 st = Inl TypeError" for st
    using assms by (cases st) (simp add: build_group_def Section_def Let_def paranode_length_um_def)
  ultimately show ?thesis
    by (simp add: make_MRG_fiber_def)
qed

lemma group_secs_props:
  assumes "s \<in> set (group_secs d n i)"
  shows "diam s = d \<and> Ra s = 70 \<and> nseg s = 1 \<and> 0 < L s
         \<and> (fst (name s) \<noteq> Node \<longrightarrow> cm s = 0.02 \<and> mechs s = [Pas (1 / 100000) (- 80)])"
  using assms
  by (auto simp add: group_secs_def node_section_def paranode_section_def juxta_section_def
      intern_section_def DEFAULT_RA_def CM_INTERNODE_def G_PAS_INTERN_def E_LEAK_def
      node_length_um_def internode_length_from_diam_def split: if_splits)

lemma new_sections_props:
  assumes "s \<in> set (concat (map (group_secs d n) [0..<N]))"
  shows "diam s = d \<and> Ra s = 70 \<and> nseg s = 1 \<and> 0 < L s
         \<and> (fst (name s) \<noteq> Node \<longrightarrow> cm s = 0.02 \<and> mechs s = [Pas (1 / 100000) (- 80)])"
proof -
  from assms obtain i where "s \<in> set (group_secs d n i)" by auto
  then show ?thesis by (rule group_secs_props)
qed

lemma groups_nth:
  assumes i: "i < N" and le: "int i \<le> n - 1" and r: "r < length (group_secs d n i)"
  shows "concat (map (group_secs d n) [0..<N]) ! (4 * i + r) = group_secs d n i ! r"
proof -
  have "[0..<i + (N - i)] = [0..<i] @ [i..<i + (N - i)]"
    by (rule upt_add_eq_append) simp
  moreover have "i + (N - i) = N" using i by simp
  moreover have "[i..<N] = i # [Suc i..<N]"
    using i by (rule upt_conv_Cons)
  ultimately have "[0..<N] = [0..<i] @ i # [Suc i..<N]"
    by simp
  then have "concat (map (group_secs d n) [0..<N])
      = concat (map (group_secs d n) [0..<i]) @ group_secs d n i
          @ concat (map (group_secs d n) [Suc i..<N])"
    by simp
  moreover have "length (concat (map (group_secs d n) [0..<i])) = 4 * i"
    using le by (rule length_groups)
  ultimately show ?thesis
    using r by (simp add: nth_append)
qed

lemma length_new_sections:
  assumes "1 \<le> n"
  shows "length (concat (map (group_secs d n) [0..<nat n])) = 4 * nat n - 3"
proof -
  obtain N where N: "nat n = Suc N" using assms by (cases "nat n") auto
  then have le: "int N \<le> n - 1" and nl: "\<not> int N < n - 1" by linarith+
  have "length (concat (map (group_secs d n) [0..<N])) = 4 * N"
    using le by (rule length_groups)
  then show ?thesis
    using nl by (simp add: N length_group_secs)
qed

lemma conn_parents: "map parent (concat (map (conn_group b) [0..<M])) = [b..<b + 4 * M]"
proof (induction M)
  case 0
  then show ?case by simp
next
  case (Suc M)
  have "b + 4 * Suc M = b + 4 * M + 4" by simp
  then have "[b..<b + 4 * Suc M] = [b..<b + 4 * M] @ [b + 4 * M..<b + 4 * M + 4]"
    using upt_add_eq_append [of b "b + 4 * M" 4] by (simp only: le_add1)
  moreover have "[b + 4 * M..<b + 4 * M + 4] = [b + 4 * M, b + 4 * M + 1, b + 4 * M + 2, b + 4 * M + 3]"
    by (simp add: upt_rec)
  ultimately show ?case
    using Suc by (simp add: conn_group_def)
qed

lemma conn_children: "map child (concat (map (conn_group b) [0..<M])) = [Suc b..<Suc b + 4 * M]"
proof (induction M)
  case 0
  then show ?case by simp
next
  case (Suc M)
  have "Suc b + 4 * Suc M = Suc b + 4 * M + 4" by simp
  then have "[Suc b..<Suc b + 4 * Suc M] = [Suc b..<Suc b + 4 * M] @ [Suc b + 4 * M..<Suc b + 4 * M + 4]"
    using upt_add_eq_append [of "Suc b" "Suc b + 4 * M" 4] by (simp only: le_add1)
  moreover have "[Suc b + 4 * M..<Suc b + 4 * M + 4]
      = [b + 4 * M + 1, b + 4 * M + 2, b + 4 * M + 3, b + 4 * M + 4]"
    by (simp add: upt_rec)
  ultimately show ?case
    using Suc by (simp add: conn_group_def)
qed

lemma built_handles_distinct:
  "distinct (nodes (built_fiber b N) @ paranos (built_fiber b N)
             @ juxtas (built_fiber b N) @ interns (built_fiber b N))"
proof -
  have d: "distinct (map (\<lambda>i. b + 4 * i + c) [0..<K])" for c K :: nat
    by (simp add: distinct_map inj_on_def)
  have ne: "b + 4 * i + c \<noteq> b + 4 * j + e" if "c < 4" "e < 4" "c \<noteq> e" for i j c e :: nat
    using that by arith
  have disj: "set (map (\<lambda>i. b + 4 * i + c) [0..<K]) \<inter> set (map (\<lambda>i. b + 4 * i + e) [0..<K']) = {}"
    if "c < 4" "e < 4" "c \<noteq> e" for c e K K' :: nat
    using ne [OF that] by auto
  have f: "nodes (built_fiber b N) = map (\<lambda>i. b + 4 * i + 0) [0..<N]"
    "paranos (built_fiber b N) = map (\<lambda>i. b + 4 * i + 1) [0..<N - 1]"
    "juxtas (built_fiber b N) = map (\<lambda>i. b + 4 * i + 2) [0..<N - 1]"
    "interns (built_fiber b N) = map (\<lambda>i. b + 4 * i + 3) [0..<N - 1]"
    by (simp_all add: built_fiber_def)
  show ?thesis
    unfolding f distinct_append set_append Int_Un_distrib
    using d disj [of 0 1] disj [of 0 2] disj [of 0 3] disj [of 1 2] disj [of 1 3] disj [of 2 3]
    by (simp only: simp_thms Un_empty)
qed

lemma built_sections_nth:
  assumes i: "i < nat n" and r: "r < length (group_secs d n i)"
  shows "sections (built_neuron d n nr) ! (length (sections nr) + 4 * i + r) = group_secs d n i ! r"
proof -
  have le: "int i \<le> n - 1" using i by linarith
  have "sections (built_neuron d n nr) ! (length (sections nr) + (4 * i + r))
          = concat (map (group_secs d n) [0..<nat n]) ! (4 * i + r)"
    by (simp add: built_neuron_def nth_append)
  also have "\<dots> = group_secs d n i ! r"
    using i le r by (rule groups_nth)
  finally show ?thesis by (simp only: add.assoc)
qed

lemma built_node_name:
  assumes "i < nat n"
  shows "sections (built_neuron d n nr) ! (nodes (built_fiber (length (sections nr)) (nat n)) ! i)
           = node_section d i"
proof -
  have "sections (built_neuron d n nr) ! (length (sections nr) + 4 * i + 0) = group_secs d n i ! 0"
    using assms by (rule built_sections_nth) (simp add: group_secs_def)
  then show ?thesis
    using assms by (simp add: built_fiber_def group_secs_def)
qed

lemma built_passive_names:
  assumes "i < nat n - 1"
  shows "sections (built_neuron d n nr) ! (paranos (built_fiber (length (sections nr)) (nat n)) ! i)
           = paranode_section d i (max 1 (3 * sqrt d))"
    and "sections (built_neuron d n nr) ! (juxtas (built_fiber (length (sections nr)) (nat n)) ! i)
           = juxta_section d i (max 5 (10 * sqrt d))"
    and "sections (built_neuron d n nr) ! (interns (built_fiber (length (sections nr)) (nat n)) ! i)
           = intern_section d i (internode_length_from_diam d)"
proof -
  have i: "i < nat n" and lt: "int i < n - 1" using assms by linarith+
  have len: "length (group_secs d n i) = 4" using lt by (simp add: length_group_secs)
  have r: "sections (built_neuron d n nr) ! (length (sections nr) + 4 * i + r) = group_secs d n i ! r"
    if "r < 4" for r
    using i by (rule built_sections_nth) (simp add: len that)
  show "sections (built_neuron d n nr) ! (paranos (built_fiber (length (sections nr)) (nat n)) ! i)
           = paranode_section d i (max 1 (3 * sqrt d))"
    using r [of 1] assms lt by (simp add: built_fiber_def group_secs_def)
  show "sections (built_neuron d n nr) ! (juxtas (built_fiber (length (sections nr)) (nat n)) ! i)
           = juxta_section d i (max 5 (10 * sqrt d))"
    using r [of 2] assms lt by (simp add: built_fiber_def group_secs_def)
  show "sections (built_neuron d n nr) ! (interns (built_fiber (length (sections nr)) (nat n)) ! i)
           = intern_section d i (internode_length_from_diam d)"
    using r [of 3] assms lt by (simp add: built_fiber_def group_secs_def)
qed

lemma built_links:
  "concat (map (chain_links (built_fiber b N)) [0..<N - 1]) = concat (map (conn_group b) [0..<N - 1])"
proof -
  have "chain_links (built_fiber b N) i = conn_group b i" if "i < N - 1" for i
  proof -
    have "i < N" "Suc i < N" using that by simp_all
    then show ?thesis
      using that by (simp add: chain_links_def conn_group_def built_fiber_def)
  qed
  then have "map (chain_links (built_fiber b N)) [0..<N - 1] = map (conn_group b) [0..<N - 1]"
    by (intro map_cong refl) simp
  then show ?thesis by (rule arg_cong)
qed

lemma built_handles_range:
  assumes "1 \<le> n"
  shows "set (nodes (built_fiber b (nat n)) @ paranos (built_fiber b (nat n))
              @ juxtas (built_fiber b (nat n)) @ interns (built_fiber b (nat n)))
           \<subseteq> {b..<b + (4 * nat n - 3)}"
  using assms by (auto simp add: built_fiber_def)

lemma length_built_sections:
  assumes "1 \<le> n"
  shows "length (sections (built_neuron d n nr)) = length (sections nr) + (4 * nat n - 3)"
  using length_new_sections [OF assms, of d] by (simp add: built_neuron_def)

subsection \<open>Counts, lengths and wiring\<close>

text \<open>
  Claim C5. For \<open>d > 0\<close> and \<open>n_nodes \<ge> 2\<close> the call succeeds; the fiber has \<open>n_nodes\<close>
  nodes and \<open>n_nodes - 1\<close> each of paranodes, juxtaparanodes and internodes; the solver
  keeps its old sections and gains \<open>4 n_nodes - 3\<close> new ones, each of strictly positive
  length; the handles in the fiber are distinct, are handles of new sections, and carry
  the role and index of their list position; the connections added are exactly the chain
  node \<open>i\<close>, paranode \<open>i\<close>, juxtaparanode \<open>i\<close>, internode \<open>i\<close>, node \<open>i + 1\<close> in that order,
  each at the 1 end of its parent; and no section is the parent of two connections or
  the child of two (no branch point).
\<close>

theorem make_MRG_fiber_chain:
  assumes d: "0 < d" and n: "2 \<le> n"
  shows "\<exists>f nr'. make_MRG_fiber d n nr = Inr (f, nr')
    \<and> length (nodes f) = nat n \<and> length (paranos f) = nat n - 1
    \<and> length (juxtas f) = nat n - 1 \<and> length (interns f) = nat n - 1
    \<and> take (length (sections nr)) (sections nr') = sections nr
    \<and> length (sections nr') = length (sections nr) + (4 * nat n - 3)
    \<and> (\<forall>s \<in> set (drop (length (sections nr)) (sections nr')). 0 < L s)
    \<and> distinct (nodes f @ paranos f @ juxtas f @ interns f)
    \<and> set (nodes f @ paranos f @ juxtas f @ interns f)
          \<subseteq> {length (sections nr)..<length (sections nr')}
    \<and> (\<forall>i < nat n. name (sections nr' ! (nodes f ! i)) = (Node, i))
    \<and> (\<forall>i < nat n - 1. name (sections nr' ! (paranos f ! i)) = (Paranode, i)
                       \<and> name (sections nr' ! (juxtas f ! i)) = (Juxta, i)
                       \<and> name (sections nr' ! (interns f ! i)) = (Intern, i))
    \<and> connections nr' = connections nr @ concat (map (chain_links f) [0..<nat n - 1])
    \<and> distinct (map parent (concat (map (chain_links f) [0..<nat n - 1])))
    \<and> distinct (map child (concat (map (chain_links f) [0..<nat n - 1])))"
proof -
  let ?b = "length (sections nr)"
  let ?f = "built_fiber ?b (nat n)"
  let ?nr = "built_neuron d n nr"
  have n1: "1 \<le> n" using n by simp
  have run: "make_MRG_fiber d n nr = Inr (?f, ?nr)"
    using d by (intro make_MRG_fiber_built) simp
  have cnt: "length (nodes ?f) = nat n" "length (paranos ?f) = nat n - 1"
    "length (juxtas ?f) = nat n - 1" "length (interns ?f) = nat n - 1"
    by (simp_all add: built_fiber_def)
  have old: "take ?b (sections ?nr) = sections nr"
    by (simp add: built_neuron_def)
  have len: "length (sections ?nr) = ?b + (4 * nat n - 3)"
    using n1 by (rule length_built_sections)
  have pos: "\<forall>s \<in> set (drop ?b (sections ?nr)). 0 < L s"
    using new_sections_props [of _ d n "nat n"] by (simp add: built_neuron_def)
  have dist: "distinct (nodes ?f @ paranos ?f @ juxtas ?f @ interns ?f)"
    by (rule built_handles_distinct)
  have rng: "set (nodes ?f @ paranos ?f @ juxtas ?f @ interns ?f) \<subseteq> {?b..<length (sections ?nr)}"
    unfolding len using n1 by (rule built_handles_range)
  have nn: "\<forall>i < nat n. name (sections ?nr ! (nodes ?f ! i)) = (Node, i)"
    by (simp add: built_node_name node_section_def)
  have pn: "\<forall>i < nat n - 1. name (sections ?nr ! (paranos ?f ! i)) = (Paranode, i)
                       \<and> name (sections ?nr ! (juxtas ?f ! i)) = (Juxta, i)
                       \<and> name (sections ?nr ! (interns ?f ! i)) = (Intern, i)"
    by (simp add: built_passive_names paranode_section_def juxta_section_def intern_section_def)
  have links: "concat (map (chain_links ?f) [0..<nat n - 1]) = concat (map (conn_group ?b) [0..<nat n - 1])"
    by (rule built_links)
  have conn: "connections ?nr = connections nr @ concat (map (chain_links ?f) [0..<nat n - 1])"
    unfolding links by (simp add: built_neuron_def)
  have par: "distinct (map parent (concat (map (chain_links ?f) [0..<nat n - 1])))"
    unfolding links conn_parents by simp
  have chi: "distinct (map child (concat (map (chain_links ?f) [0..<nat n - 1])))"
    unfolding links conn_children by simp
  show ?thesis
    using run cnt old len pos dist rng nn pn conn par chi by blast
qed

theorem make_MRG_fiber_chain_witness:
  "(0::real) < 4 \<and> (2::int) \<le> 3
   \<and> (\<exists>f nr'. make_MRG_fiber 4 3 empty_neuron = Inr (f, nr')
        \<and> length (nodes f) = nat 3 \<and> length (paranos f) = nat 3 - 1
        \<and> length (juxtas f) = nat 3 - 1 \<and> length (interns f) = nat 3 - 1
        \<and> length (sections nr') = length (sections empty_neuron) + (4 * nat 3 - 3)
        \<and> distinct (nodes f @ paranos f @ juxtas f @ interns f)
        \<and> connections nr' = connections empty_neuron @ concat (map (chain_links f) [0..<nat 3 - 1]))"
proof -
  have "\<exists>f nr'. make_MRG_fiber 4 3 empty_neuron = Inr (f, nr')
    \<and> length (nodes f) = nat 3 \<and> length (paranos f) = nat 3 - 1
    \<and> length (juxtas f) = nat 3 - 1 \<and> length (interns f) = nat 3 - 1
    \<and> take (length (sections empty_neuron)) (sections nr') = sections empty_neuron
    \<and> length (sections nr') = length (sections empty_neuron) + (4 * nat 3 - 3)
    \<and> (\<forall>s \<in> set (drop (length (sections empty_neuron)) (sections nr')). 0 < L s)
    \<and> distinct (nodes f @ paranos f @ juxtas f @ interns f)
    \<and> set (nodes f @ paranos f @ juxtas f @ interns f)
          \<subseteq> {length (sections empty_neuron)..<length (sections nr')}
    \<and> (\<forall>i < nat 3. name (sections nr' ! (nodes f ! i)) = (Node, i))
    \<and> (\<forall>i < nat 3 - 1. name (sections nr' ! (paranos f ! i)) = (Paranode, i)
                       \<and> name (sections nr' ! (juxtas f ! i)) = (Juxta, i)
                       \<and> name (sections nr' ! (interns f ! i)) = (Intern, i))
    \<and> connections nr' = connections empty_neuron @ concat (map (chain_links f) [0..<nat 3 - 1])
    \<and> distinct (map parent (concat (map (chain_links f) [0..<nat 3 - 1])))
    \<and> distinct (map child (concat (map (chain_links f) [0..<nat 3 - 1])))"
    by (rule make_MRG_fiber_chain) simp_all
  then obtain f nr' where "make_MRG_fiber 4 3 empty_neuron = Inr (f, nr')"
    and "length (nodes f) = nat 3" and "length (paranos f) = nat 3 - 1"
    and "length (juxtas f) = nat 3 - 1" and "length (interns f) = nat 3 - 1"
    and "length (sections nr') = length (sections empty_neuron) + (4 * nat 3 - 3)"
    and "distinct (nodes f @ paranos f @ juxtas f @ interns f)"
    and "connections nr' = connections empty_neuron @ concat (map (chain_links f) [0..<nat 3 - 1])"
    by (elim exE conjE)
  then have "\<exists>f nr'. make_MRG_fiber 4 3 empty_neuron = Inr (f, nr')
        \<and> length (nodes f) = nat 3 \<and> length (paranos f) = nat 3 - 1
        \<and> length (juxtas f) = nat 3 - 1 \<and> length (interns f) = nat 3 - 1
        \<and> length (sections nr') = length (sections empty_neuron) + (4 * nat 3 - 3)
        \<and> distinct (nodes f @ paranos f @ juxtas f @ interns f)
        \<and> connections nr' = connections empty_neuron @ concat (map (chain_links f) [0..<nat 3 - 1])"
    by (intro exI conjI)
  then show ?thesis by simp
qed

subsection \<open>Fewer than two nodes\<close>

text \<open>
  Claim C6, as stated, at \<open>n_nodes = 1\<close> and diameter 5 on an empty solver: the call does
  not fail, it returns a fiber of one node, and the node's section has been created.
\<close>

theorem single_node_counterexample:
  "(1::int) < 2
   \<and> make_MRG_fiber 5 1 empty_neuron
       = Inr (\<lparr>nodes = [0], paranos = [], juxtas = [], interns = [], mid_idx = 0\<rparr>,
              empty_neuron\<lparr>sections := [node_section 5 0]\<rparr>)"
  by (simp add: make_MRG_fiber_def build_group_def Section_def Let_def empty_neuron_def)

text \<open>
  Claim C6, amended. For \<open>n_nodes < 2\<close> the call raises nothing and connects nothing: it
  returns a fiber with \<open>max n_nodes 0\<close> nodes and no other compartment, and the solver
  gains exactly these node sections (none for \<open>n_nodes \<le> 0\<close>, one for \<open>n_nodes = 1\<close>).
\<close>

theorem make_MRG_fiber_degenerate:
  assumes "n < 2"
  shows "make_MRG_fiber d n nr
           = Inr (\<lparr>nodes = map (\<lambda>i. length (sections nr)) [0..<nat n], paranos = [],
                   juxtas = [], interns = [], mid_idx = 0\<rparr>,
                  nr\<lparr>sections := sections nr @ map (node_section d) [0..<nat n]\<rparr>)"
proof -
  have run: "make_MRG_fiber d n nr = Inr (built_fiber (length (sections nr)) (nat n), built_neuron d n nr)"
    using assms by (intro make_MRG_fiber_built) simp
  consider "nat n = 0" | "nat n = 1" using assms by linarith
  then show ?thesis
  proof cases
    case 1
    then show ?thesis
      unfolding run by (simp add: built_fiber_def built_neuron_def)
  next
    case 2
    then have "\<not> (0 < n - 1)" using assms by simp
    then show ?thesis
      unfolding run using 2 by (simp add: built_fiber_def built_neuron_def group_secs_def)
  qed
qed

theorem make_MRG_fiber_degenerate_witness:
  "(1::int) < 2 \<and> (0::int) < 2
   \<and> make_MRG_fiber 5 1 empty_neuron
       = Inr (\<lparr>nodes = [0], paranos = [], juxtas = [], interns = [], mid_idx = 0\<rparr>,
              empty_neuron\<lparr>sections := [node_section 5 0]\<rparr>)
   \<and> make_MRG_fiber 5 0 empty_neuron
       = Inr (\<lparr>nodes = [], paranos = [], juxtas = [], interns = [], mid_idx = 0\<rparr>, empty_neuron)"
  using make_MRG_fiber_degenerate [of 1 5 empty_neuron]
    make_MRG_fiber_degenerate [of 0 5 empty_neuron]
  by (simp add: empty_neuron_def)

subsection \<open>Parameters of the created sections\<close>

text \<open>
  Claim C10. Whenever the call returns, the solver keeps its old sections, and every
  section it gained has the input diameter, axial resistivity 70 and one segment; every
  gained section that is not a node has capacitance 0.02 and the single passive mechanism
  with conductance \<open>1e-5\<close> and reversal potential \<open>-80\<close>; and the handles in the fiber's
  four lists are handles of gained sections of the matching role.
\<close>

theorem make_MRG_fiber_parameters:
  assumes run: "make_MRG_fiber d n nr = Inr (f, nr')"
  shows "take (length (sections nr)) (sections nr') = sections nr
    \<and> (\<forall>s \<in> set (drop (length (sections nr)) (sections nr')).
          diam s = d \<and> Ra s = 70 \<and> nseg s = 1
          \<and> (fst (name s) \<noteq> Node \<longrightarrow> cm s = 0.02 \<and> mechs s = [Pas (1 / 100000) (- 80)]))
    \<and> (\<forall>i < length (nodes f). name (sections nr' ! (nodes f ! i)) = (Node, i))
    \<and> (\<forall>i < length (paranos f). name (sections nr' ! (paranos f ! i)) = (Paranode, i))
    \<and> (\<forall>i < length (juxtas f). name (sections nr' ! (juxtas f ! i)) = (Juxta, i))
    \<and> (\<forall>i < length (interns f). name (sections nr' ! (interns f ! i)) = (Intern, i))
    \<and> (\<forall>h \<in> set (nodes f @ paranos f @ juxtas f @ interns f).
          length (sections nr) \<le> h \<and> h < length (sections nr'))"
proof -
  let ?b = "length (sections nr)"
  have ok: "0 \<le> d \<or> n \<le> 1"
  proof (rule ccontr)
    assume "\<not> (0 \<le> d \<or> n \<le> 1)"
    then have "make_MRG_fiber d n nr = Inl TypeError"
      by (intro make_MRG_fiber_TypeError) simp_all
    with run show False by simp
  qed
  have f: "f = built_fiber ?b (nat n)" and nr': "nr' = built_neuron d n nr"
    using run make_MRG_fiber_built [OF ok, of nr] by simp_all
  have old: "take ?b (sections nr') = sections nr"
    by (simp add: nr' built_neuron_def)
  have par: "\<forall>s \<in> set (drop ?b (sections nr')).
          diam s = d \<and> Ra s = 70 \<and> nseg s = 1
          \<and> (fst (name s) \<noteq> Node \<longrightarrow> cm s = 0.02 \<and> mechs s = [Pas (1 / 100000) (- 80)])"
    using new_sections_props [of _ d n "nat n"] by (simp add: nr' built_neuron_def)
  have len: "length (nodes f) = nat n" "length (paranos f) = nat n - 1"
    "length (juxtas f) = nat n - 1" "length (interns f) = nat n - 1"
    by (simp_all add: f built_fiber_def)
  have nn: "\<forall>i < length (nodes f). name (sections nr' ! (nodes f ! i)) = (Node, i)"
    unfolding len unfolding f nr' by (simp add: built_node_name node_section_def)
  have pn: "\<forall>i < length (paranos f). name (sections nr' ! (paranos f ! i)) = (Paranode, i)"
    unfolding len unfolding f nr' by (simp add: built_passive_names paranode_section_def)
  have jn: "\<forall>i < length (juxtas f). name (sections nr' ! (juxtas f ! i)) = (Juxta, i)"
    unfolding len unfolding f nr' by (simp add: built_passive_names juxta_section_def)
  have inn: "\<forall>i < length (interns f). name (sections nr' ! (interns f ! i)) = (Intern, i)"
    unfolding len unfolding f nr' by (simp add: built_passive_names intern_section_def)
  have rng: "\<forall>h \<in> set (nodes f @ paranos f @ juxtas f @ interns f). ?b \<le> h \<and> h < length (sections nr')"
  proof (cases "1 \<le> n")
    case True
    have "set (nodes f @ paranos f @ juxtas f @ interns f) \<subseteq> {?b..<?b + (4 * nat n - 3)}"
      unfolding f using True by (rule built_handles_range)
    moreover have "length (sections nr') = ?b + (4 * nat n - 3)"
      unfolding nr' using True by (rule length_built_sections)
    ultimately show ?thesis by auto
  next
    case False
    then have "nat n = 0" by simp
    then show ?thesis by (simp add: f built_fiber_def)
  qed
  show ?thesis using old par nn pn jn inn rng by blast
qed

theorem make_MRG_fiber_parameters_witness:
  "make_MRG_fiber 4 2 empty_neuron = Inr (built_fiber 0 2, built_neuron 4 2 empty_neuron)
   \<and> name (sections (built_neuron 4 2 empty_neuron) ! 1) = (Paranode, 0)
   \<and> diam (sections (built_neuron 4 2 empty_neuron) ! 1) = 4
   \<and> Ra (sections (built_neuron 4 2 empty_neuron) ! 1) = 70
   \<and> nseg (sections (built_neuron 4 2 empty_neuron) ! 1) = 1
   \<and> cm (sections (built_neuron 4 2 empty_neuron) ! 1) = 0.02
   \<and> mechs (sections (built_neuron 4 2 empty_neuron) ! 1) = [Pas (1 / 100000) (- 80)]"
proof -
  let ?f = "built_fiber 0 2"
  let ?nr = "built_neuron 4 2 empty_neuron"
  have run: "make_MRG_fiber 4 2 empty_neuron = Inr (?f, ?nr)"
    using make_MRG_fiber_built [of 4 2 empty_neuron] by (simp add: empty_neuron_def)
  note all = make_MRG_fiber_parameters [OF run]
  have par: "\<forall>s \<in> set (drop (length (sections empty_neuron)) (sections ?nr)).
          diam s = 4 \<and> Ra s = 70 \<and> nseg s = 1
          \<and> (fst (name s) \<noteq> Node \<longrightarrow> cm s = 0.02 \<and> mechs s = [Pas (1 / 100000) (- 80)])"
    using all by (elim conjE)
  have pn: "\<forall>i < length (paranos ?f). name (sections ?nr ! (paranos ?f ! i)) = (Paranode, i)"
    using all by (elim conjE)
  have rng: "\<forall>h \<in> set (nodes ?f @ paranos ?f @ juxtas ?f @ interns ?f).
          length (sections empty_neuron) \<le> h \<and> h < length (sections ?nr)"
    using all by (elim conjE)
  have p: "paranos ?f = [1]"
    by (simp add: built_fiber_def)
  have nm: "name (sections ?nr ! 1) = (Paranode, 0)"
    using pn by (simp add: p)
  have "1 < length (sections ?nr)"
    using rng by (simp add: p)
  then have "sections ?nr ! 1 \<in> set (sections ?nr)"
    by (rule nth_mem)
  then have "sections ?nr ! 1 \<in> set (drop (length (sections empty_neuron)) (sections ?nr))"
    by (simp add: empty_neuron_def)
  with par have "diam (sections ?nr ! 1) = 4 \<and> Ra (sections ?nr ! 1) = 70
      \<and> nseg (sections ?nr ! 1) = 1
      \<and> (fst (name (sections ?nr ! 1)) \<noteq> Node \<longrightarrow>
            cm (sections ?nr ! 1) = 0.02 \<and> mechs (sections ?nr ! 1) = [Pas (1 / 100000) (- 80)])"
    by (rule bspec)
  with nm run show ?thesis by simp
qed

section \<open>Verification: stimulus and trial\<close>

subsection \<open>Attaching a stimulus\<close>

text \<open>
  Claim C9, as stated, on an empty solver: with two time samples against one current
  sample, with decreasing time samples, and with no samples at all, the call returns
  normally and the clamp is in the solver.
\<close>

theorem unchecked_waveform_counterexample:
  "length [0, 1 :: real] \<noteq> length [5 :: real]
   \<and> attach_vector_stim 0 [0, 1] [5] empty_neuron
       = Inr (0, empty_neuron\<lparr>iclamps :=
                [\<lparr>ic_section = 0, ic_x = 0.5, delay = 0, dur = 10 ^ 9, amp = 0,
                  play_t = [0, 1],
                  play_i = [5], play_continuous = True\<rparr>]\<rparr>)
   \<and> \<not> sorted [1, 0 :: real]
   \<and> attach_vector_stim 0 [1, 0] [5, 5] empty_neuron
       = Inr (0, empty_neuron\<lparr>iclamps :=
                [\<lparr>ic_section = 0, ic_x = 0.5, delay = 0, dur = 10 ^ 9, amp = 0,
                  play_t = [1, 0],
                  play_i = [5, 5], play_continuous = True\<rparr>]\<rparr>)
   \<and> length ([] :: real list) < 2
   \<and> attach_vector_stim 0 [] [] empty_neuron
       = Inr (0, empty_neuron\<lparr>iclamps :=
                [\<lparr>ic_section = 0, ic_x = 0.5, delay = 0, dur = 10 ^ 9, amp = 0,
                  play_t = [],
                  play_i = [], play_continuous = True\<rparr>]\<rparr>)"
  by (simp add: attach_vector_stim_def empty_neuron_def)

text \<open>
  Claim C9, amended. The call never raises an error of its own, whatever the two series
  are: it adds one clamp at position 0.5 of the section, with delay 0, duration \<open>1e9\<close>
  and the amplitude parameter left at 0, playing the current samples against the time
  samples as they were given, and changes nothing else in the solver.
\<close>

theorem attach_vector_stim_unchecked:
  "\<exists>stim nr'. attach_vector_stim node_sec tvec_ms ivec_nA nr = Inr (stim, nr')
     \<and> stim = length (iclamps nr)
     \<and> iclamps nr' = iclamps nr @ [\<lparr>ic_section = node_sec, ic_x = 0.5, delay = 0, dur = 10 ^ 9,
                                     amp = 0, play_t = tvec_ms, play_i = ivec_nA,
                                     play_continuous = True\<rparr>]
     \<and> sections nr' = sections nr \<and> connections nr' = connections nr
     \<and> recorders nr' = recorders nr \<and> tstop nr' = tstop nr \<and> dt nr' = dt nr
     \<and> v_init nr' = v_init nr \<and> vm nr' = vm nr"
  by (simp add: attach_vector_stim_def)

subsection \<open>The trial\<close>

lemma find_threshold_search_link:
  assumes "py_index (nodes f) (case r of Some i \<Rightarrow> i | None \<Rightarrow> int (length (nodes f)) - 1) = Inr sec"
  shows "find_threshold solve nr f tvec_ms base scale_lo scale_hi tol max_iters r
           = find_threshold_search
               (test_scale solve (nr\<lparr>recorders := recorders nr @ [(sec, 0.5)]\<rparr>)
                  (nodes f) (mid_idx f) tvec_ms base (length (recorders nr)))
               scale_lo scale_hi tol max_iters"
  using assms by (simp add: find_threshold_def Let_def record_section_v_def)

lemma run_sim_start:
  "run_sim solve tstop_ms nr
     = (nr\<lparr>tstop := tstop_ms, dt := DT, vm := v_init nr\<rparr>,
        solve (nr\<lparr>tstop := tstop_ms, dt := DT, vm := v_init nr,
                  iclamps := map overwritten (iclamps nr)\<rparr>))"
  by (simp add: run_sim_def h_run_def finitialize_def Let_def)

lemma test_scale_run:
  "test_scale solve nr nodes' mid tvec_ms base rec_v s
     = bind (py_index nodes' mid) (\<lambda>nd.
       bind (py_index tvec_ms (- 1)) (\<lambda>t_last.
       bind (solve (trial_run_state nr nd tvec_ms base t_last)) (\<lambda>vecs.
         if vecs rec_v = [] then Inl ValueError else Inr (0 < Max (set (vecs rec_v))))))"
proof (cases "py_index nodes' mid")
  case (Inl e)
  then show ?thesis by (simp add: test_scale_def)
next
  case nd: (Inr nd)
  show ?thesis
  proof (cases "py_index tvec_ms (- 1)")
    case (Inl e)
    then show ?thesis by (simp add: test_scale_def nd attach_vector_stim_def)
  next
    case (Inr t_last)
    then show ?thesis
      by (simp add: test_scale_def nd attach_vector_stim_def Let_def run_sim_start
          trial_run_state_def overwritten_def DT_def o_def cong: if_cong)
  qed
qed

text \<open>
  Claim C8, at any fiber, waveform and scale. The trial's result is the same at every
  scale. The state the integration starts from has the new clamp at the node
  \<open>nodes[mid]\<close> with amplitude 0 and no value of the scaled series, the stop time at the
  last time sample plus 5, the step 0.025, and the potential \<open>v_init\<close>, which is \<open>-65\<close>
  from the first lines of the module on, not \<open>E_LEAK = -80\<close>; the result is true exactly
  when the maximum of the recorded trace exceeds 0.
\<close>

theorem trial_ignores_scale:
  "test_scale solve nr nodes' mid tvec_ms base rec_v s
     = test_scale solve nr nodes' mid tvec_ms base rec_v s'
   \<and> test_scale solve nr nodes' mid tvec_ms base rec_v s
     = bind (py_index nodes' mid) (\<lambda>nd.
       bind (py_index tvec_ms (- 1)) (\<lambda>t_last.
       bind (solve (trial_run_state nr nd tvec_ms base t_last)) (\<lambda>vecs.
         if vecs rec_v = [] then Inl ValueError else Inr (0 < Max (set (vecs rec_v))))))
   \<and> vm (trial_run_state nr nd tvec_ms base t_last) = v_init nr
   \<and> amp (last (iclamps (trial_run_state nr nd tvec_ms base t_last))) = 0
   \<and> play_i (last (iclamps (trial_run_state nr nd tvec_ms base t_last))) = map (\<lambda>y. 0) base
   \<and> v_init empty_neuron = - 65 \<and> E_LEAK = - 80"
proof -
  have a: "test_scale solve nr nodes' mid tvec_ms base rec_v s
     = test_scale solve nr nodes' mid tvec_ms base rec_v s'"
    by (simp only: test_scale_run)
  have b: "vm (trial_run_state nr nd tvec_ms base t_last) = v_init nr"
    "amp (last (iclamps (trial_run_state nr nd tvec_ms base t_last))) = 0"
    "play_i (last (iclamps (trial_run_state nr nd tvec_ms base t_last))) = map (\<lambda>y. 0) base"
    by (simp_all add: trial_run_state_def)
  have c: "v_init empty_neuron = - 65" "E_LEAK = - 80"
    by (simp_all add: empty_neuron_def E_LEAK_def)
  show ?thesis
    using a test_scale_run [of solve nr nodes' mid tvec_ms base rec_v s] b c
    by (intro conjI)
qed

section \<open>Verification: threshold search\<close>

subsection \<open>The loop and its history\<close>








subsection \<open>The search performs the specified iterations\<close>



subsection \<open>The bracket at termination\<close>




subsection \<open>The bracket checks\<close>

text \<open>
  Claim C3. If the trial at \<open>scale_hi\<close> does not fire the search returns \<open>None\<close> and no
  number; if the trials at \<open>scale_hi\<close> and at \<open>scale_lo\<close> both fire it returns
  \<open>scale_lo\<close>. Both hold whatever the trial would do at any other scale, so no further
  trial is run.
\<close>

theorem find_threshold_bracket_checks:
  "(trial scale_hi = Inr False \<longrightarrow>
      find_threshold_search trial scale_lo scale_hi tol max_iters = Inr None)
   \<and> (trial scale_hi = Inr True \<and> trial scale_lo = Inr True \<longrightarrow>
      find_threshold_search trial scale_lo scale_hi tol max_iters = Inr (Some scale_lo))"
  by (simp add: find_threshold_search_def)

theorem find_threshold_bracket_checks_witness:
  "fires_from 1 0 = Inr False
   \<and> find_threshold_search (fires_from 1) 0 0 (1 / 100) 20 = Inr None
   \<and> fires_from 1 5 = Inr True \<and> fires_from 1 2 = Inr True
   \<and> find_threshold_search (fires_from 1) 2 5 (1 / 100) 20 = Inr (Some 2)"
  using find_threshold_bracket_checks [of "fires_from 1" 0 0 "1 / 100" 20]
    find_threshold_bracket_checks [of "fires_from 1" 5 2 "1 / 100" 20]
  by (simp add: fires_from_def)

subsection \<open>The loop invariant\<close>

lemma round_half_even_of_int: "round_half_even (of_int m) = m"
  by (simp add: round_half_even_def)

lemma powr_powi: "(2::real) powr real_of_int k = 2 powi k"
  by (simp add: powr_real_of_int power_int_def power_one_over inverse_eq_divide)

lemma round64_binade:
  assumes lo: "2 powi k \<le> \<bar>x\<bar>" and hi: "\<bar>x\<bar> < 2 powi (k + 1)"
  shows "round64 x = of_int (round_half_even (x / 2 powi (k - 52))) * 2 powi (k - 52)"
proof -
  have pos: "0 < \<bar>x\<bar>"
    using lo by (smt (verit) zero_less_power_int)
  then have nz: "x \<noteq> 0" by auto
  have "2 powr real_of_int k \<le> \<bar>x\<bar>" "\<bar>x\<bar> < 2 powr real_of_int (k + 1)"
    using lo hi by (simp_all only: powr_powi)
  then have "\<lfloor>log 2 \<bar>x\<bar>\<rfloor> = k"
    using pos by (simp add: floor_log_eq_powr_iff)
  then show ?thesis
    using nz by (simp add: round64_def Let_def)
qed

lemma round64_pow2: "round64 (2 powi k) = 2 powi k"
proof -
  have "round64 (2 powi k) = of_int (round_half_even (2 powi k / 2 powi (k - 52))) * 2 powi (k - 52)"
    by (rule round64_binade) (simp_all add: power_int_add)
  moreover have "(2::real) powi k / 2 powi (k - 52) = of_int (2 ^ 52)"
    by (simp add: power_int_diff)
  ultimately show ?thesis
    by (simp only: round_half_even_of_int) (simp add: power_int_diff)
qed


lemma round64_2: "round64 2 = 2"
  using round64_pow2 [of 1] by simp













end
